theory Spec2Isabelle
  imports Main "HOL-Library.Word"
begin

unbundle bit_operations_syntax

section \<open>Platform, memory and the heap provider\<close>

text \<open>
  The allocator of \<^verbatim>\<open>mm.c\<close> is modelled on an LP64 target: pointers, \<^verbatim>\<open>uintptr_t\<close> and
  \<^verbatim>\<open>size_t\<close> are 64-bit words whose arithmetic wraps, \<^verbatim>\<open>int\<close> and \<^verbatim>\<open>unsigned int\<close> are
  32-bit (the header comment of the file names 16-byte alignment on a 64-bit processor).
  Memory is a store of words indexed by byte address. A word access is defined only at a
  non-null, word-aligned address inside the region the provider has handed out; every other
  access is a fault, which ends the run. The record \<open>heap\<close> holds the memory, the provider's
  three pointers and the two globals of the allocator, \<^verbatim>\<open>heap_listp\<close> and \<^verbatim>\<open>list_head\<close>.
\<close>

type_synonym addr = "64 word"

datatype fault = BadRead addr | BadWrite addr

record heap =
  mem :: "addr \<Rightarrow> addr"
  mem_start_brk :: addr
  mem_brk :: addr
  mem_max_addr :: addr
  heap_listp :: addr
  list_head :: addr

type_synonym 'a run = "heap \<Rightarrow> fault + ('a \<times> heap)"

definition ret :: "'a \<Rightarrow> 'a run" where
  "ret x = (\<lambda>s. Inr (x, s))"

definition bnd :: "'a run \<Rightarrow> ('a \<Rightarrow> 'b run) \<Rightarrow> 'b run" where
  "bnd m f = (\<lambda>s. case m s of Inl e \<Rightarrow> Inl e | Inr (x, s') \<Rightarrow> f x s')"

definition thn :: "unit run \<Rightarrow> 'b run \<Rightarrow> 'b run" where
  "thn m k = bnd m (\<lambda>_. k)"

definition WSIZE :: addr where
  "WSIZE = 8"

definition DSIZE :: addr where
  "DSIZE = 2 * WSIZE"

definition CHUNKSIZE :: addr where
  "CHUNKSIZE = push_bit 12 1"

definition MAX_of :: "addr \<Rightarrow> addr \<Rightarrow> addr" where
  "MAX_of x y = (if x > y then x else y)"

definition PACK :: "addr \<Rightarrow> addr \<Rightarrow> addr" where
  "PACK sz alloc = sz OR alloc"

definition accessible :: "heap \<Rightarrow> addr \<Rightarrow> bool" where
  "accessible s p =
     (p \<noteq> 0 \<and> p AND (WSIZE - 1) = 0 \<and> mem_start_brk s \<le> p
      \<and> unat p + unat WSIZE \<le> unat (mem_brk s))"

definition GET :: "addr \<Rightarrow> addr run" where
  "GET p = (\<lambda>s. if accessible s p then Inr (mem s p, s) else Inl (BadRead p))"

definition PUT :: "addr \<Rightarrow> addr \<Rightarrow> unit run" where
  "PUT p val =
     (\<lambda>s. if accessible s p then Inr ((), s\<lparr>mem := (mem s)(p := val)\<rparr>)
          else Inl (BadWrite p))"

text \<open>
  Modelled from the spec: \<^verbatim>\<open>mem_sbrk\<close> of the heap provider (\<^verbatim>\<open>memlib\<close>), which is not
  part of the source file: it appends the requested bytes to the heap and returns the
  previous end address, or the failure sentinel \<^verbatim>\<open>(void *)-1\<close> when the region is exhausted.
\<close>

definition mem_sbrk :: "addr \<Rightarrow> addr run" where
  "mem_sbrk incr =
     (\<lambda>s. if unat (mem_brk s) + unat incr \<le> unat (mem_max_addr s)
          then Inr (mem_brk s, s\<lparr>mem_brk := mem_brk s + incr\<rparr>)
          else Inr (- 1, s))"

text \<open>
  \<^verbatim>\<open>memcpy\<close> of the C library on the word store: whole words front to back, then the low
  bytes of the last, partial word (little-endian). Where source and destination overlap, C
  leaves the result open; the model then still copies front to back.
\<close>

primrec memcpy_words :: "nat \<Rightarrow> addr \<Rightarrow> addr \<Rightarrow> unit run" where
  "memcpy_words 0 dst src = ret ()"
| "memcpy_words (Suc n) dst src =
     bnd (GET src) (\<lambda>v. thn (PUT dst v) (memcpy_words n (dst + WSIZE) (src + WSIZE)))"

definition memcpy :: "addr \<Rightarrow> addr \<Rightarrow> addr \<Rightarrow> unit run" where
  "memcpy dst src n =
     thn (memcpy_words (unat (n div WSIZE)) dst src)
       (let r = n mod WSIZE in
        if r = 0 then ret ()
        else bnd (GET (src + (n - r))) (\<lambda>v.
             bnd (GET (dst + (n - r))) (\<lambda>w.
             PUT (dst + (n - r))
               ((v AND mask (8 * unat r)) OR (w AND NOT (mask (8 * unat r)))))))"

section \<open>Layout macros\<close>

definition GET_SIZE :: "addr \<Rightarrow> addr run" where
  "GET_SIZE p = bnd (GET p) (\<lambda>v. ret (v AND NOT (DSIZE - 1)))"

definition GET_ALLOC :: "addr \<Rightarrow> addr run" where
  "GET_ALLOC p = bnd (GET p) (\<lambda>v. ret (v AND 1))"

definition HDRP :: "addr \<Rightarrow> addr" where
  "HDRP bp = bp - WSIZE"

definition FTRP :: "addr \<Rightarrow> addr run" where
  "FTRP bp = bnd (GET_SIZE (HDRP bp)) (\<lambda>sz. ret (bp + sz - DSIZE))"

definition NEXT_BLKP :: "addr \<Rightarrow> addr run" where
  "NEXT_BLKP bp = bnd (GET_SIZE (HDRP bp)) (\<lambda>sz. ret (bp + sz))"

definition PREV_BLKP :: "addr \<Rightarrow> addr run" where
  "PREV_BLKP bp = bnd (GET_SIZE (bp - DSIZE)) (\<lambda>sz. ret (bp - sz))"

definition GET_NEXTP :: "addr \<Rightarrow> addr run" where
  "GET_NEXTP bp = GET (bp + WSIZE)"

definition GET_PREVP :: "addr \<Rightarrow> addr run" where
  "GET_PREVP bp = GET bp"

definition SET_NEXTP :: "addr \<Rightarrow> addr \<Rightarrow> unit run" where
  "SET_NEXTP bp qp = PUT (bp + WSIZE) qp"

definition SET_PREVP :: "addr \<Rightarrow> addr \<Rightarrow> unit run" where
  "SET_PREVP bp qp = PUT bp qp"

text \<open>Reading and assigning the two globals.\<close>

definition get_list_head :: "addr run" where
  "get_list_head = (\<lambda>s. Inr (list_head s, s))"

definition set_list_head :: "addr \<Rightarrow> unit run" where
  "set_list_head p = (\<lambda>s. Inr ((), s\<lparr>list_head := p\<rparr>))"

definition get_heap_listp :: "addr run" where
  "get_heap_listp = (\<lambda>s. Inr (heap_listp s, s))"

definition set_heap_listp :: "addr \<Rightarrow> unit run" where
  "set_heap_listp p = (\<lambda>s. Inr ((), s\<lparr>heap_listp := p\<rparr>))"

section \<open>Free list\<close>

definition insert_list :: "addr \<Rightarrow> unit run" where
  "insert_list bp =
     thn (bnd get_list_head (\<lambda>h. SET_NEXTP bp h))
    (thn (bnd get_list_head (\<lambda>h. SET_PREVP h bp))
    (thn (SET_PREVP bp 0)
         (set_list_head bp)))"

definition remove_list :: "addr \<Rightarrow> unit run" where
  "remove_list bp =
     thn (bnd (GET_PREVP bp) (\<lambda>c.
            if c \<noteq> 0
            then bnd (GET_PREVP bp) (\<lambda>p. bnd (GET_NEXTP bp) (\<lambda>n. SET_NEXTP p n))
            else bnd (GET_NEXTP bp) (\<lambda>n. set_list_head n)))
         (bnd (GET_NEXTP bp) (\<lambda>n. bnd (GET_PREVP bp) (\<lambda>p. SET_PREVP n p)))"

section \<open>Coalescing, extension, placement\<close>

definition coalesce :: "addr \<Rightarrow> addr run" where
  "coalesce bp =
     bnd (bnd (NEXT_BLKP bp) (\<lambda>n. GET_ALLOC (HDRP n))) (\<lambda>next_alloc.
     bnd (bnd (bnd (PREV_BLKP bp) FTRP) (\<lambda>f. bnd (GET_ALLOC f) (\<lambda>a.
            if a \<noteq> 0 then ret True
            else bnd (PREV_BLKP bp) (\<lambda>p. ret (p = bp))))) (\<lambda>prev_alloc.
     bnd (GET_SIZE (HDRP bp)) (\<lambda>sz.
     if prev_alloc \<and> next_alloc = 0 then
       bnd (bnd (NEXT_BLKP bp) (\<lambda>n. GET_SIZE (HDRP n))) (\<lambda>nsz.
       thn (bnd (NEXT_BLKP bp) remove_list)
      (thn (PUT (HDRP bp) (PACK (sz + nsz) 0))
      (thn (bnd (FTRP bp) (\<lambda>f. PUT f (PACK (sz + nsz) 0)))
      (thn (insert_list bp)
           (ret bp)))))
     else if \<not> prev_alloc \<and> next_alloc \<noteq> 0 then
       bnd (bnd (PREV_BLKP bp) (\<lambda>p. GET_SIZE (HDRP p))) (\<lambda>psz.
       bnd (PREV_BLKP bp) (\<lambda>bp'.
       thn (remove_list bp')
      (thn (PUT (HDRP bp') (PACK (sz + psz) 0))
      (thn (bnd (FTRP bp') (\<lambda>f. PUT f (PACK (sz + psz) 0)))
      (thn (insert_list bp')
           (ret bp'))))))
     else if \<not> prev_alloc \<and> next_alloc = 0 then
       bnd (bnd (PREV_BLKP bp) (\<lambda>p. GET_SIZE (HDRP p))) (\<lambda>psz.
       bnd (bnd (NEXT_BLKP bp) (\<lambda>n. GET_SIZE (HDRP n))) (\<lambda>nsz.
       thn (bnd (PREV_BLKP bp) remove_list)
      (thn (bnd (NEXT_BLKP bp) remove_list)
      (bnd (PREV_BLKP bp) (\<lambda>bp'.
       thn (PUT (HDRP bp') (PACK (sz + (psz + nsz)) 0))
      (thn (bnd (FTRP bp') (\<lambda>f. PUT f (PACK (sz + (psz + nsz)) 0)))
      (thn (insert_list bp')
           (ret bp'))))))))
     else
       thn (insert_list bp) (ret bp))))"

definition extend_heap :: "addr \<Rightarrow> addr run" where
  "extend_heap words =
     (let sz = (if words mod 2 \<noteq> 0 then (words + 1) * WSIZE else words * WSIZE) in
      bnd (mem_sbrk sz) (\<lambda>bp.
      if bp = - 1 then ret 0
      else
        thn (PUT (HDRP bp) (PACK sz 0))
       (thn (bnd (FTRP bp) (\<lambda>f. PUT f (PACK sz 0)))
       (thn (bnd (NEXT_BLKP bp) (\<lambda>n. PUT (HDRP n) (PACK 0 1)))
            (coalesce bp)))))"

definition place :: "addr \<Rightarrow> addr \<Rightarrow> unit run" where
  "place bp asize =
     bnd (GET_SIZE (HDRP bp)) (\<lambda>tempSize.
     if tempSize - asize \<ge> 4 * WSIZE then
       thn (PUT (HDRP bp) (PACK asize 1))
      (thn (bnd (FTRP bp) (\<lambda>f. PUT f (PACK asize 1)))
      (thn (remove_list bp)
      (bnd (NEXT_BLKP bp) (\<lambda>bp'.
       thn (PUT (HDRP bp') (PACK (tempSize - asize) 0))
      (thn (bnd (FTRP bp') (\<lambda>f. PUT f (PACK (tempSize - asize) 0)))
           (insert_list bp'))))))
     else
       thn (PUT (HDRP bp) (PACK tempSize 1))
      (thn (bnd (FTRP bp) (\<lambda>f. PUT f (PACK tempSize 1)))
           (remove_list bp)))"

text \<open>
  The first-fit loop of \<^verbatim>\<open>find_fit\<close> follows the \<^verbatim>\<open>next\<close> links until a null link; on a
  cyclic list with no fit it does not return, which is the value \<open>None\<close>.
\<close>

partial_function (option) find_fit_from :: "addr \<Rightarrow> addr \<Rightarrow> heap \<Rightarrow> (fault + addr \<times> heap) option" where
  "find_fit_from asize bp s =
     (if bp = 0 then Some (Inr (0, s))
      else (case GET_SIZE (HDRP bp) s of
              Inl e \<Rightarrow> Some (Inl e)
            | Inr r \<Rightarrow>
                if asize \<le> fst r then Some (Inr (bp, snd r))
                else (case GET_NEXTP bp (snd r) of
                        Inl e \<Rightarrow> Some (Inl e)
                      | Inr r' \<Rightarrow> find_fit_from asize (fst r') (snd r'))))"

definition find_fit :: "addr \<Rightarrow> heap \<Rightarrow> (fault + addr \<times> heap) option" where
  "find_fit asize s = find_fit_from asize (list_head s) s"

section \<open>The public operations\<close>

definition mm_init :: "int run" where
  "mm_init =
     bnd (mem_sbrk (8 * WSIZE)) (\<lambda>r.
     thn (set_heap_listp r)
     (if r = - 1 then ret (- 1)
      else
        thn (bnd get_heap_listp (\<lambda>h. PUT h 0))
       (thn (bnd get_heap_listp (\<lambda>h. PUT (h + 1 * WSIZE) (PACK DSIZE 1)))
       (thn (bnd get_heap_listp (\<lambda>h. PUT (h + 2 * WSIZE) (PACK DSIZE 1)))
       (thn (bnd get_heap_listp (\<lambda>h. PUT (h + 3 * WSIZE) (PACK 0 1)))
       (thn (bnd get_heap_listp (\<lambda>h. set_list_head (h + 3 * WSIZE)))
       (thn (bnd get_list_head (\<lambda>l. SET_NEXTP l 0))
       (bnd (extend_heap (CHUNKSIZE div WSIZE)) (\<lambda>b.
          if b = 0 then ret (- 1) else ret 0)))))))))"

text \<open>
  The last step of \<^verbatim>\<open>mm_init\<close>, what it returns for the result of \<^verbatim>\<open>extend_heap\<close>, under a
  name of its own.
\<close>

definition init_outcome :: "addr \<Rightarrow> int run" where
  "init_outcome = (\<lambda>b. if b = 0 then ret (- 1) else ret 0)"

text \<open>The size adjustment at the head of \<^verbatim>\<open>mm_malloc\<close>, under a name of its own.\<close>

definition adjusted_size :: "addr \<Rightarrow> addr" where
  "adjusted_size sz =
     (if sz \<le> DSIZE then 2 * DSIZE
      else DSIZE * ((sz + DSIZE + (DSIZE - 1)) div DSIZE))"

definition mm_malloc :: "addr \<Rightarrow> heap \<Rightarrow> (fault + addr \<times> heap) option" where
  "mm_malloc sz s =
     (if sz = 0 then Some (Inr (0, s))
      else
        let asize = adjusted_size sz in
        (case find_fit asize s of
           None \<Rightarrow> None
         | Some (Inl e) \<Rightarrow> Some (Inl e)
         | Some (Inr (bp, s1)) \<Rightarrow>
             if bp \<noteq> 0 then Some (thn (place bp asize) (ret bp) s1)
             else
               Some (bnd (extend_heap (MAX_of asize CHUNKSIZE div WSIZE)) (\<lambda>bp'.
                     if bp' = 0 then ret 0
                     else thn (place bp' asize) (ret bp')) s1)))"

definition mm_free :: "addr \<Rightarrow> unit run" where
  "mm_free bp =
     (if bp = 0 then ret ()
      else
        bnd (GET_SIZE (HDRP bp)) (\<lambda>sz.
        thn (PUT (HDRP bp) (PACK sz 0))
       (thn (bnd (FTRP bp) (\<lambda>f. PUT f (PACK sz 0)))
            (bnd (coalesce bp) (\<lambda>_. ret ())))))"

text \<open>
  The casts \<^verbatim>\<open>(int)size\<close> of \<^verbatim>\<open>mm_realloc\<close> keep the low 32 bits of the request and read
  them as a signed value.
\<close>

definition int_of_size :: "addr \<Rightarrow> int" where
  "int_of_size sz = sint (ucast sz :: 32 word)"

definition mm_realloc :: "addr \<Rightarrow> addr \<Rightarrow> heap \<Rightarrow> (fault + addr \<times> heap) option" where
  "mm_realloc ptr sz s =
     (if int_of_size sz = 0 then Some (thn (mm_free ptr) (ret 0) s)
      else if int_of_size sz < 0 then Some (Inr (0, s))
      else if ptr = 0 then mm_malloc sz s
      else if sz > 0 then
        (case GET_SIZE (HDRP ptr) s of
           Inl e \<Rightarrow> Some (Inl e)
         | Inr (presize, s1) \<Rightarrow>
             let reqsize = sz + 2 * WSIZE in
             if presize \<ge> reqsize then Some (Inr (ptr, s1))
             else
               (case bnd (NEXT_BLKP ptr) (\<lambda>n. GET_ALLOC (HDRP n)) s1 of
                  Inl e \<Rightarrow> Some (Inl e)
                | Inr (next_alloc, s2) \<Rightarrow>
                    (case (if next_alloc = 0
                           then bnd (bnd (NEXT_BLKP ptr) (\<lambda>n. GET_SIZE (HDRP n)))
                                  (\<lambda>nsz. ret (presize + nsz \<ge> reqsize, presize + nsz))
                           else ret (False, 0)) s2 of
                       Inl e \<Rightarrow> Some (Inl e)
                     | Inr ((grow, tempSize), s3) \<Rightarrow>
                         if grow then
                           Some ((thn (bnd (NEXT_BLKP ptr) remove_list)
                                 (thn (PUT (HDRP ptr) (PACK tempSize 1))
                                 (thn (bnd (FTRP ptr) (\<lambda>f. PUT f (PACK tempSize 1)))
                                      (ret ptr)))) s3)
                         else
                           (case mm_malloc reqsize s3 of
                              None \<Rightarrow> None
                            | Some (Inl e) \<Rightarrow> Some (Inl e)
                            | Some (Inr (tempptr, s4)) \<Rightarrow>
                                Some ((thn (place tempptr reqsize)
                                      (thn (memcpy tempptr ptr reqsize)
                                      (thn (mm_free ptr)
                                           (ret tempptr)))) s4)))))
      else Some (Inr (0, s)))"

section \<open>The consistency checker's free-block count\<close>

partial_function (option) count_heap_free :: "addr \<Rightarrow> 32 word \<Rightarrow> heap \<Rightarrow> (fault + 32 word) option" where
  "count_heap_free bp heapCount s =
     (case GET_SIZE (HDRP bp) s of
        Inl e \<Rightarrow> Some (Inl e)
      | Inr r \<Rightarrow>
          if fst r > 0 then
            (case GET_ALLOC (HDRP bp) s of
               Inl e \<Rightarrow> Some (Inl e)
             | Inr a \<Rightarrow>
                 count_heap_free (bp + fst r)
                   (if fst a = 0 then heapCount + 1 else heapCount) s)
          else Some (Inr heapCount))"

partial_function (option) count_list :: "addr \<Rightarrow> 32 word \<Rightarrow> heap \<Rightarrow> (fault + 32 word) option" where
  "count_list bp listCount s =
     (if bp \<noteq> 0 then
        (case GET_NEXTP bp s of
           Inl e \<Rightarrow> Some (Inl e)
         | Inr r \<Rightarrow> count_list (fst r) (listCount + 1) s)
      else Some (Inr listCount))"

text \<open>
  \<^verbatim>\<open>check_free_blocks\<close> prints its error exactly when the two counts differ; the model
  returns whether they agree.
\<close>

definition check_free_blocks :: "heap \<Rightarrow> (fault + bool) option" where
  "check_free_blocks s =
     (case count_heap_free (heap_listp s) 0 s of
        None \<Rightarrow> None
      | Some (Inl e) \<Rightarrow> Some (Inl e)
      | Some (Inr heapCount) \<Rightarrow>
          (case count_list (list_head s) 0 s of
             None \<Rightarrow> None
           | Some (Inl e) \<Rightarrow> Some (Inl e)
           | Some (Inr listCount) \<Rightarrow> Some (Inr (heapCount = listCount))))"

section \<open>The four cases of coalescing, as the specification words them\<close>




section \<open>Concrete heaps\<close>

text \<open>
  A fresh provider region for concrete runs: 20 MB of zeroed memory starting at address
  \<open>0x1000\<close>, nothing handed out yet, the allocator's globals still null.
\<close>

definition fresh_heap :: heap where
  "fresh_heap =
     \<lparr>mem = (\<lambda>_. 0), mem_start_brk = 0x1000, mem_brk = 0x1000,
      mem_max_addr = 0x1401000, heap_listp = 0, list_head = 0\<rparr>"

text \<open>
  The heap inside \<^verbatim>\<open>mm_init\<close>, started on \<open>fresh_heap\<close>, at the moment it calls
  \<^verbatim>\<open>extend_heap\<close>: eight words handed out; padding, prologue header and footer, the
  epilogue header at \<open>0x1018\<close>; the list head at the epilogue header, its next link null.
\<close>

definition init_laid :: heap where
  "init_laid =
     \<lparr>mem = (\<lambda>_. 0)
        (0x1000 := 0, 0x1008 := 17, 0x1010 := 17, 0x1018 := 1, 0x1020 := 0),
      mem_start_brk = 0x1000, mem_brk = 0x1040, mem_max_addr = 0x1401000,
      heap_listp = 0x1000, list_head = 0x1018\<rparr>"

text \<open>
  The heap after \<^verbatim>\<open>mm_init\<close> on \<open>fresh_heap\<close>: one free block of 4096 bytes at
  \<open>0x1040\<close>, the epilogue header at \<open>0x2038\<close>; the free list is the block followed by the
  node at \<open>0x1018\<close>.
\<close>

definition booted :: heap where
  "booted =
     \<lparr>mem = (\<lambda>_. 0)
        (0x1000 := 0, 0x1008 := 17, 0x1010 := 17, 0x1020 := 0, 0x1038 := 4096,
         0x2030 := 4096, 0x2038 := 1, 0x1048 := 0x1018, 0x1018 := 0x1040, 0x1040 := 0),
      mem_start_brk = 0x1000, mem_brk = 0x2040, mem_max_addr = 0x1401000,
      heap_listp = 0x1000, list_head = 0x1040\<rparr>"

text \<open>
  \<open>booted\<close> after \<^verbatim>\<open>mm_malloc(100)\<close>, which returned \<open>0x1040\<close>: an allocated block of
  128 bytes, the free remainder of 3968 bytes at \<open>0x10C0\<close> heading the free list.
\<close>

definition heap_a :: heap where
  "heap_a =
     \<lparr>mem = (\<lambda>_. 0)
        (0x1000 := 0, 0x1008 := 17, 0x1010 := 17, 0x1020 := 0, 0x2038 := 1,
         0x1048 := 0x1018, 0x1040 := 0, 0x1038 := 129, 0x10B0 := 129, 0x10B8 := 3968,
         0x2030 := 3968, 0x10C8 := 0x1018, 0x1018 := 0x10C0, 0x10C0 := 0),
      mem_start_brk = 0x1000, mem_brk = 0x2040, mem_max_addr = 0x1401000,
      heap_listp = 0x1000, list_head = 0x10C0\<rparr>"

text \<open>
  \<open>booted\<close> after two calls \<^verbatim>\<open>mm_malloc(32)\<close>, which returned \<open>0x1040\<close> and \<open>0x1070\<close>:
  two allocated blocks of 48 bytes, the free remainder at \<open>0x10A0\<close>.
\<close>

definition heap_ab :: heap where
  "heap_ab =
     \<lparr>mem = (\<lambda>_. 0)
        (0x1000 := 0, 0x1008 := 17, 0x1010 := 17, 0x1020 := 0, 0x2038 := 1,
         0x1048 := 0x1018, 0x1040 := 0, 0x1038 := 49, 0x1060 := 49, 0x1078 := 0x1018,
         0x1070 := 0, 0x1068 := 49, 0x1090 := 49, 0x1098 := 4000, 0x2030 := 4000,
         0x10A8 := 0x1018, 0x1018 := 0x10A0, 0x10A0 := 0),
      mem_start_brk = 0x1000, mem_brk = 0x2040, mem_max_addr = 0x1401000,
      heap_listp = 0x1000, list_head = 0x10A0\<rparr>"


text \<open>
  \<open>booted\<close> after four calls \<^verbatim>\<open>mm_malloc(24)\<close> (blocks of 48 bytes at \<open>0x1040\<close>,
  \<open>0x1070\<close>, \<open>0x10A0\<close>, \<open>0x10D0\<close>), \<^verbatim>\<open>mm_free\<close> of the first and the third, and the
  header and footer of the second marked free, as \<^verbatim>\<open>mm_free\<close> does before it calls
  \<^verbatim>\<open>coalesce\<close>.
\<close>

definition heap_mid :: heap where
  "heap_mid =
     \<lparr>mem = (\<lambda>_. 0)
        (0x1000 := 0, 0x1008 := 17, 0x1010 := 17, 0x1020 := 0, 0x2038 := 1,
         0x1078 := 0x1018, 0x1070 := 0, 0x10D8 := 0x1018, 0x10D0 := 0, 0x10C8 := 49,
         0x10F0 := 49, 0x10F8 := 3904, 0x2030 := 3904, 0x1108 := 0x1018, 0x1018 := 0x1100,
         0x1038 := 48, 0x1060 := 48, 0x1048 := 0x1100, 0x1100 := 0x1040, 0x1098 := 48,
         0x10C0 := 48, 0x10A8 := 0x1040, 0x1040 := 0x10A0, 0x10A0 := 0, 0x1068 := 48,
         0x1090 := 48),
      mem_start_brk = 0x1000, mem_brk = 0x2040, mem_max_addr = 0x1401000,
      heap_listp = 0x1000, list_head = 0x10A0\<rparr>"

text \<open>
  \<open>booted\<close> after two calls \<^verbatim>\<open>mm_malloc(1)\<close> (blocks of 32 bytes at \<open>0x1040\<close> and
  \<open>0x1060\<close>) and \<^verbatim>\<open>mm_free\<close> of the first: a free block of 32 bytes heads the free list.
\<close>

definition heap_small :: heap where
  "heap_small =
     \<lparr>mem = (\<lambda>_. 0)
        (0x1000 := 0, 0x1008 := 17, 0x1010 := 17, 0x1020 := 0, 0x2038 := 1,
         0x1068 := 0x1018, 0x1060 := 0, 0x1058 := 33, 0x1070 := 33, 0x1078 := 4032,
         0x2030 := 4032, 0x1088 := 0x1018, 0x1018 := 0x1080, 0x1038 := 32, 0x1050 := 32,
         0x1048 := 0x1080, 0x1080 := 0x1040, 0x1040 := 0),
      mem_start_brk = 0x1000, mem_brk = 0x2040, mem_max_addr = 0x1401000,
      heap_listp = 0x1000, list_head = 0x1040\<rparr>"

section \<open>Running the model\<close>

lemmas exec = bnd_def thn_def ret_def GET_def PUT_def GET_SIZE_def GET_ALLOC_def FTRP_def
  NEXT_BLKP_def PREV_BLKP_def GET_NEXTP_def GET_PREVP_def SET_NEXTP_def SET_PREVP_def
  get_list_head_def set_list_head_def get_heap_listp_def set_heap_listp_def

lemmas cdefs = WSIZE_def DSIZE_def CHUNKSIZE_def PACK_def HDRP_def MAX_of_def

lemmas run_defs = mm_init_def mm_malloc_def mm_free_def find_fit_def find_fit_from.simps
  place_def extend_heap_def coalesce_def insert_list_def remove_list_def mem_sbrk_def
  adjusted_size_def accessible_def Let_def exec cdefs

lemma not_accessible_null: "\<not> accessible s 0"
  by (simp add: accessible_def)

lemma accessible_mem_upd [simp]: "accessible (s\<lparr>mem := m\<rparr>) p = accessible s p"
  by (simp add: accessible_def)

lemma accessible_head_upd [simp]: "accessible (s\<lparr>list_head := h\<rparr>) p = accessible s p"
  by (simp add: accessible_def)








lemma pack_free [simp]: "PACK v 0 = v"
  by (simp add: PACK_def)

lemma size_mask: "NOT (DSIZE - 1) = NOT 15"
  by (simp add: DSIZE_def WSIZE_def)

subsection \<open>Sizes are multiples of sixteen\<close>






section \<open>Free-list operations\<close>


section \<open>Coalescing\<close>





section \<open>How the concrete heaps arise\<close>

lemma init_reaches_extend:
  "mm_init fresh_heap = bnd (extend_heap (CHUNKSIZE div WSIZE)) init_outcome init_laid"
  by (simp add: mm_init_def init_outcome_def mem_sbrk_def accessible_def exec cdefs
        fresh_heap_def init_laid_def)

lemma mm_init_fresh: "mm_init fresh_heap = Inr (0, booted)"
  by (simp add: run_defs fresh_heap_def booted_def)

lemma malloc_100_booted: "mm_malloc 100 booted = Some (Inr (0x1040, heap_a))"
  by (simp add: run_defs booted_def heap_a_def)

lemma malloc_32_twice:
  "(case mm_malloc 32 booted of
      Some (Inr (a, s)) \<Rightarrow> a = 0x1040 \<and> mm_malloc 32 s = Some (Inr (0x1070, heap_ab))
    | _ \<Rightarrow> False)"
  by (simp add: run_defs booted_def heap_ab_def)

lemma heap_small_run:
  "(case mm_malloc 1 booted of
      Some (Inr (a, s1)) \<Rightarrow> a = 0x1040 \<and>
        (case mm_malloc 1 s1 of
           Some (Inr (b, s2)) \<Rightarrow> b = 0x1060 \<and> mm_free a s2 = Inr ((), heap_small)
         | _ \<Rightarrow> False)
    | _ \<Rightarrow> False)"
  by (simp add: run_defs booted_def heap_small_def)

lemma heap_mid_run:
  "(case mm_malloc 24 booted of
      Some (Inr (a, s1)) \<Rightarrow> a = 0x1040 \<and>
        (case mm_malloc 24 s1 of
           Some (Inr (b, s2)) \<Rightarrow> b = 0x1070 \<and>
             (case mm_malloc 24 s2 of
                Some (Inr (c, s3)) \<Rightarrow> c = 0x10A0 \<and>
                  (case mm_malloc 24 s3 of
                     Some (Inr (d, s4)) \<Rightarrow> d = 0x10D0 \<and>
                       (case thn (mm_free a) (mm_free c) s4 of
                          Inr (_, s5) \<Rightarrow>
                            thn (PUT (HDRP b) (PACK 48 0))
                              (bnd (FTRP b) (\<lambda>f. PUT f (PACK 48 0))) s5 = Inr ((), heap_mid)
                        | Inl _ \<Rightarrow> False)
                   | _ \<Rightarrow> False)
              | _ \<Rightarrow> False)
         | _ \<Rightarrow> False)
    | _ \<Rightarrow> False)"
  by (simp add: run_defs booted_def heap_mid_def)

section \<open>The free list and its end node\<close>

text \<open>
  \<^verbatim>\<open>mm_init\<close> makes the address of the initial epilogue header the first list head and
  gives it a null next link, so the free list always ends in that node and the head is never
  null while the allocator runs as intended. Neither list operation tests a pointer before
  it writes through it, except for the previous link in \<^verbatim>\<open>remove_list\<close>.
\<close>

text \<open>
  The last node of the free list after \<^verbatim>\<open>mm_init\<close> is the one at \<open>0x1018\<close>; its next link is
  null, and removing it writes through the null pointer.
\<close>

theorem remove_list_tail_counterexample:
  "list_head booted = 0x1040 \<and> GET_NEXTP 0x1040 booted = Inr (0x1018, booted)
   \<and> GET_NEXTP 0x1018 booted = Inr (0, booted)
   \<and> remove_list 0x1018 booted = Inl (BadWrite 0)"
  by (simp add: remove_list_def booted_def accessible_def exec cdefs)

text \<open>
  C5, as the code has it. For every free-list node \<open>bp\<close> whose two link words are readable
  and whose previous node, if any, has a writable next link that is not \<open>bp\<close>'s previous link:
  \<^verbatim>\<open>remove(bp)\<close> sets \<open>bp.prev.next\<close>, or the head when \<open>bp.prev\<close> is null, to \<open>bp.next\<close>, and
  then writes \<open>bp.prev\<close> into \<open>bp.next.prev\<close> without testing \<open>bp.next\<close>. The write lands when
  \<open>bp.next\<close> is a writable address; when \<open>bp.next\<close> is null it goes through the null pointer
  and the call faults.
\<close>

theorem remove_list_unguarded:
  assumes "accessible s bp" and "accessible s (bp + WSIZE)"
    and "mem s bp = 0 \<or> accessible s (mem s bp + WSIZE)"
    and "mem s bp + WSIZE \<noteq> bp"
  shows "remove_list bp s =
           (let s1 = (if mem s bp \<noteq> 0
                      then s\<lparr>mem := (mem s)(mem s bp + WSIZE := mem s (bp + WSIZE))\<rparr>
                      else s\<lparr>list_head := mem s (bp + WSIZE)\<rparr>)
            in if accessible s (mem s (bp + WSIZE))
               then Inr ((), s1\<lparr>mem := (mem s1)(mem s (bp + WSIZE) := mem s bp)\<rparr>)
               else Inl (BadWrite (mem s (bp + WSIZE))))
         \<and> (mem s (bp + WSIZE) = 0 \<longrightarrow> remove_list bp s = Inl (BadWrite 0))"
  using assms
  by (auto simp add: remove_list_def exec Let_def accessible_def)

text \<open>
  Removing the head block of \<open>booted\<close>, whose next node is the end node, and removing the
  end node itself.
\<close>

theorem remove_list_unguarded_witness:
  "remove_list 0x1040 booted =
     Inr ((), booted\<lparr>list_head := 0x1018, mem := (mem booted)(0x1018 := 0)\<rparr>)
   \<and> mem booted (0x1018 + WSIZE) = 0
   \<and> remove_list 0x1018 booted = Inl (BadWrite 0)"
  using remove_list_unguarded [of booted "0x1040"] remove_list_unguarded [of booted "0x1018"]
  by (simp add: booted_def accessible_def cdefs)

text \<open>With a null head, inserting a block writes through the null pointer.\<close>

theorem insert_list_null_head_counterexample:
  "insert_list 0x1040 (booted\<lparr>list_head := 0\<rparr>) = Inl (BadWrite 0)"
  by (simp add: insert_list_def booted_def accessible_def exec cdefs)

text \<open>
  C6, as the code has it. For every block \<open>bp\<close> whose two link words are writable and every
  writable head, \<^verbatim>\<open>insert(bp)\<close> pushes \<open>bp\<close> at the head of the free list: \<open>bp.next = head\<close>,
  \<open>head.prev = bp\<close>, \<open>bp.prev = null\<close>, \<open>head = bp\<close>, written in this order. The write to
  \<open>head.prev\<close> is not guarded: with a null head it goes through the null pointer and the
  call faults.
\<close>

theorem insert_list_pushes:
  "(accessible s (bp + WSIZE) \<and> accessible s (list_head s) \<and> accessible s bp \<longrightarrow>
      insert_list bp s =
        Inr ((), s\<lparr>mem := (mem s)(bp + WSIZE := list_head s, list_head s := bp, bp := 0),
                   list_head := bp\<rparr>))
   \<and> (accessible s (bp + WSIZE) \<and> list_head s = 0 \<longrightarrow> insert_list bp s = Inl (BadWrite 0))"
  by (simp add: insert_list_def exec accessible_def)

theorem insert_list_pushes_witness:
  "insert_list 0x10C0 booted =
     Inr ((), booted\<lparr>mem := (mem booted)(0x10C8 := 0x1040, 0x1040 := 0x10C0, 0x10C0 := 0),
                     list_head := 0x10C0\<rparr>)
   \<and> insert_list 0x10C0 (booted\<lparr>list_head := 0\<rparr>) = Inl (BadWrite 0)"
  using insert_list_pushes [of booted "0x10C0"]
    insert_list_pushes [of "booted\<lparr>list_head := 0\<rparr>" "0x10C0"]
  by (simp add: booted_def accessible_def cdefs)

section \<open>Extending the heap\<close>





section \<open>Reallocation\<close>

lemma int_of_size_alt: "int_of_size sz = (uint sz + 2 ^ 31) mod 2 ^ 32 - 2 ^ 31"
  unfolding int_of_size_def
  by (simp add: sint_uint signed_take_bit_eq_take_bit_shift take_bit_eq_mod
        unsigned_ucast_eq mod_simps)

lemma wrap32:
  fixes x :: int
  assumes "18446744073709551600 \<le> x" and "x < 18446744073709551616"
  shows "(x + 2147483648) mod 4294967296 - 2147483648 < 0"
proof -
  define k where "k = 18446744073709551616 - x"
  have k: "1 \<le> k" "k \<le> 16"
    using assms by (simp_all add: k_def)
  have "x + 2147483648 = (2147483648 - k) + 4294967296 * 4294967296"
    by (simp add: k_def)
  then have "(x + 2147483648) mod 4294967296 = (2147483648 - k) mod 4294967296"
    by (simp only: mod_mult_self2)
  also have "\<dots> = 2147483648 - k"
    using k by simp
  finally show ?thesis using k by simp
qed

text \<open>A request that the cast reads as positive is at least sixteen below \<open>2^64\<close>.\<close>

lemma positive_request_small:
  assumes "0 < int_of_size sz"
  shows "uint sz + 16 < 18446744073709551616"
proof (rule ccontr)
  assume "\<not> uint sz + 16 < 18446744073709551616"
  then have "18446744073709551600 \<le> uint sz" by simp
  moreover have "uint sz < 18446744073709551616"
    using uint_bounded [of sz] by simp
  ultimately have "(uint sz + 2147483648) mod 4294967296 - 2147483648 < 0"
    by (rule wrap32)
  then show False
    using assms by (simp add: int_of_size_alt)
qed

lemma reqsize_exact:
  assumes "0 < int_of_size sz"
  shows "uint (sz + 2 * WSIZE) = uint sz + 2 * uint WSIZE"
proof -
  have "uint (sz + 16) = (uint sz + 16) mod 18446744073709551616"
    by (simp add: uint_word_ariths)
  also have "\<dots> = uint sz + 16"
    using positive_request_small [OF assms] by simp
  finally show ?thesis by (simp add: WSIZE_def)
qed

text \<open>
  The block at \<open>0x1040\<close> of \<open>heap_a\<close> is allocated and has 128 bytes, which is at least
  \<open>0 + 2W\<close>; \<^verbatim>\<open>mm_realloc\<close> with size 0 frees it and returns null, not the block.
\<close>

theorem mm_realloc_zero_counterexample:
  "GET_SIZE (HDRP 0x1040) heap_a = Inr (128, heap_a)
   \<and> GET_ALLOC (HDRP 0x1040) heap_a = Inr (1, heap_a)
   \<and> uint (0 :: addr) + 2 * uint WSIZE \<le> 128
   \<and> map_option (map_sum id fst) (mm_realloc 0x1040 0 heap_a) = Some (Inr 0)"
  by (simp add: mm_realloc_def int_of_size_def run_defs heap_a_def)

text \<open>
  C3, as the code has it. For every non-null payload pointer \<open>bp\<close> with a readable header
  and every requested size \<open>s\<close> that the cast \<^verbatim>\<open>(int)s\<close> reads as positive, such that the
  total block size of \<open>bp\<close> is at least \<open>s + 2W\<close>: \<^verbatim>\<open>mm_realloc(bp, s)\<close> returns \<open>bp\<close> itself and
  leaves the heap as it was.
\<close>

theorem mm_realloc_keeps_block:
  assumes "ptr \<noteq> 0" and "0 < int_of_size sz" and "accessible s (HDRP ptr)"
    and "uint sz + 2 * uint WSIZE \<le> uint (mem s (HDRP ptr) AND NOT (DSIZE - 1))"
  shows "mm_realloc ptr sz s = Some (Inr (ptr, s))"
proof -
  have "sz \<noteq> 0"
    using assms(2) by (auto simp: int_of_size_def)
  then have pos: "0 < sz"
    by (simp add: word_greater_zero_iff)
  have "sz + 2 * WSIZE \<le> mem s (HDRP ptr) AND NOT (DSIZE - 1)"
    using assms(4) reqsize_exact [OF assms(2)] by (simp add: word_le_def)
  then show ?thesis
    using assms(1,2,3) pos by (simp add: mm_realloc_def exec Let_def)
qed

theorem mm_realloc_keeps_block_witness:
  "0 < int_of_size 100 \<and> mem heap_a (HDRP 0x1040) AND NOT (DSIZE - 1) = 128
   \<and> mm_realloc 0x1040 100 heap_a = Some (Inr (0x1040, heap_a))"
  using mm_realloc_keeps_block [of "0x1040" 100 heap_a]
  by (simp add: int_of_size_def heap_a_def accessible_def cdefs)

text \<open>
  C4. \<^verbatim>\<open>mm_realloc\<close> tests \<^verbatim>\<open>(int)size\<close>, the low 32 bits of the request. With size \<open>2^32\<close>, and
  with size \<open>2^63\<close>, the cast is zero: the block is freed and null returned, although the size
  is not zero. With size \<open>2^31\<close> the cast is negative and null is returned with the heap
  untouched. On \<open>heap_a\<close>, \<^verbatim>\<open>mm_realloc(0x1040, 2^32)\<close> returns null and leaves the block, which
  was allocated, free.
\<close>

theorem mm_realloc_truncates_size:
  "mm_realloc ptr 0x100000000 s = Some (thn (mm_free ptr) (ret 0) s)
   \<and> mm_realloc ptr 0x8000000000000000 s = Some (thn (mm_free ptr) (ret 0) s)
   \<and> mm_realloc ptr 0x80000000 s = Some (Inr (0, s))
   \<and> (\<exists>s'. mm_realloc 0x1040 0x100000000 heap_a = Some (Inr (0, s'))
          \<and> GET_ALLOC (HDRP 0x1040) heap_a = Inr (1, heap_a)
          \<and> GET_ALLOC (HDRP 0x1040) s' = Inr (0, s'))"
  by (simp add: mm_realloc_def int_of_size_def run_defs heap_a_def)




section \<open>Requests near the top of the size range\<close>

lemma wrap_sum:
  assumes "- 32 < (sz :: addr)"
  shows "uint (sz + 31) = uint sz - 18446744073709551585"
    and "18446744073709551585 \<le> uint sz"
proof -
  have a: "18446744073709551584 < uint sz"
    using assms by (simp add: word_less_def)
  then show b: "18446744073709551585 \<le> uint sz" by simp
  have c: "uint sz < 18446744073709551616"
    using uint_bounded [of sz] by simp
  have "uint (sz + 31) = (uint sz + 31) mod 18446744073709551616"
    by (simp add: uint_word_ariths)
  also have "uint sz + 31 = (uint sz - 18446744073709551585) + 1 * 18446744073709551616"
    by simp
  also have "\<dots> mod 18446744073709551616
               = (uint sz - 18446744073709551585) mod 18446744073709551616"
    by (simp only: mod_mult_self1)
  also have "\<dots> = uint sz - 18446744073709551585"
    using b c by simp
  finally show "uint (sz + 31) = uint sz - 18446744073709551585" .
qed

lemma wrap_quot:
  assumes "- 32 < (sz :: addr)"
  shows "(sz + 31) div 16 = 0 \<or> (sz + 31) div 16 = 1"
proof -
  have c: "uint sz < 18446744073709551616"
    using uint_bounded [of sz] by simp
  have "uint ((sz + 31) div 16) = (uint sz - 18446744073709551585) div 16"
    using wrap_sum [OF assms] by (simp add: uint_div)
  moreover have "(uint sz - 18446744073709551585) div 16 = 0
                   \<or> (uint sz - 18446744073709551585) div 16 = 1"
    using wrap_sum(2) [OF assms] c by presburger
  ultimately have "uint ((sz + 31) div 16) = uint (0::addr)
                     \<or> uint ((sz + 31) div 16) = uint (1::addr)"
    by simp
  then show ?thesis by (simp only: word_uint_eq_iff)
qed

lemma wrap_cases:
  assumes "- 32 < (sz :: addr)"
  shows "adjusted_size sz = 0 \<or> adjusted_size sz = 16"
proof -
  have "\<not> sz \<le> 16"
    using wrap_sum(2) [OF assms] by (simp add: word_le_def)
  then have e: "adjusted_size sz = 16 * ((sz + 31) div 16)"
    by (simp add: adjusted_size_def DSIZE_def WSIZE_def add.commute)
  from wrap_quot [OF assms] show ?thesis
    unfolding e by auto
qed

lemma wrap_less:
  assumes "- 32 < (sz :: addr)"
  shows "adjusted_size sz < sz" and "32 < sz" and "sz \<noteq> 0"
  using wrap_cases [OF assms] wrap_sum(2) [OF assms]
  by (auto simp: word_less_def)

lemmas place_defs = find_fit_def find_fit_from.simps place_def insert_list_def remove_list_def
  accessible_def Let_def exec cdefs

lemma malloc_small_0:
  assumes "sz \<noteq> 0" and "adjusted_size sz = 0"
  shows "\<exists>s'. mm_malloc sz heap_small = Some (Inr (0x1040, s')) \<and> mem s' (HDRP 0x1040) = 32"
  using assms by (simp add: mm_malloc_def place_defs heap_small_def)

lemma malloc_small_16:
  assumes "sz \<noteq> 0" and "adjusted_size sz = 16"
  shows "\<exists>s'. mm_malloc sz heap_small = Some (Inr (0x1040, s')) \<and> mem s' (HDRP 0x1040) = 33"
  using assms by (simp add: mm_malloc_def place_defs heap_small_def)

text \<open>
  C10. For every request size greater than \<open>2^64 - 2D\<close> the sum \<open>size + DSIZE + (DSIZE - 1)\<close>
  that \<^verbatim>\<open>mm_malloc\<close> forms exceeds the 64 bits of \<^verbatim>\<open>size_t\<close>, the adjusted size it computes
  is smaller than the request, and \<^verbatim>\<open>mm_malloc\<close> can return a block smaller than the request:
  on \<open>heap_small\<close> it returns a non-null pointer to a block whose whole size is below the
  requested payload.
\<close>

theorem adjusted_size_wraps:
  assumes "2 ^ 64 - 2 * uint DSIZE < uint sz"
  shows "2 ^ 64 \<le> uint sz + uint DSIZE + uint (DSIZE - 1)
       \<and> adjusted_size sz < sz
       \<and> (\<exists>p s'. mm_malloc sz heap_small = Some (Inr (p, s')) \<and> p \<noteq> 0
                 \<and> mem s' (HDRP p) AND NOT (DSIZE - 1) < sz)"
proof -
  have big: "- 32 < sz"
    using assms by (simp add: word_less_def DSIZE_def WSIZE_def)
  have "2 ^ 64 \<le> uint sz + uint DSIZE + uint (DSIZE - 1)"
    using assms by (simp add: DSIZE_def WSIZE_def)
  moreover note wrap_less(1) [OF big]
  moreover have "\<exists>p s'. mm_malloc sz heap_small = Some (Inr (p, s')) \<and> p \<noteq> 0
                   \<and> mem s' (HDRP p) AND NOT (DSIZE - 1) < sz"
    using wrap_cases [OF big]
  proof
    assume "adjusted_size sz = 0"
    from malloc_small_0 [OF wrap_less(3) [OF big] this] wrap_less(2) [OF big]
    show ?thesis by (auto simp: size_mask)
  next
    assume "adjusted_size sz = 16"
    from malloc_small_16 [OF wrap_less(3) [OF big] this] wrap_less(2) [OF big]
    show ?thesis by (auto simp: size_mask)
  qed
  ultimately show ?thesis by simp
qed

theorem adjusted_size_wraps_witness:
  "2 ^ 64 - 2 * uint DSIZE < uint (0xFFFFFFFFFFFFFFFF :: addr)
   \<and> adjusted_size 0xFFFFFFFFFFFFFFFF = 16
   \<and> (\<exists>p s'. mm_malloc 0xFFFFFFFFFFFFFFFF heap_small = Some (Inr (p, s')) \<and> p \<noteq> 0
                 \<and> mem s' (HDRP p) AND NOT (DSIZE - 1) < 0xFFFFFFFFFFFFFFFF)"
  using adjusted_size_wraps [of "0xFFFFFFFFFFFFFFFF"]
  by (simp add: adjusted_size_def DSIZE_def WSIZE_def)

text \<open>
  C1. \<^verbatim>\<open>mm_malloc\<close> with a request of \<open>2^64 - 20\<close> bytes on \<open>booted\<close>: the adjusted size wraps
  to 0, the first free block fits, and \<^verbatim>\<open>mm_malloc\<close> returns the non-null pointer \<open>0x1040\<close> to
  a block of 4096 bytes, far fewer than requested, which moreover is marked free again and
  heads the free list.
\<close>

theorem mm_malloc_wrapped_request:
  "\<exists>s'. mm_malloc 0xFFFFFFFFFFFFFFEC booted = Some (Inr (0x1040, s'))
        \<and> GET_SIZE (HDRP 0x1040) s' = Inr (4096, s')
        \<and> GET_ALLOC (HDRP 0x1040) s' = Inr (0, s')
        \<and> list_head s' = 0x1040
        \<and> (4096 :: addr) < 0xFFFFFFFFFFFFFFEC"
  by (simp add: run_defs booted_def)

section \<open>Free-list and heap walk after initialisation\<close>

text \<open>
  C7. Right after \<^verbatim>\<open>mm_init\<close> the two counts of \<^verbatim>\<open>check_free_blocks\<close> cannot agree. The list
  walk counts two nodes, the free block at \<open>0x1040\<close> and the node at \<open>0x1018\<close>, which is the
  initial epilogue header and no block. The heap walk starts at \<^verbatim>\<open>heap_listp\<close>, which
  \<^verbatim>\<open>mm_init\<close> leaves at the first word of the heap, so its first header read is one word below
  the heap. A walk from the prologue's payload pointer reads the word at \<open>0x1018\<close>, by then a
  list link, as a header and leaves the heap as well.
\<close>

theorem init_free_counts_disagree:
  "mm_init fresh_heap = Inr (0, booted)
   \<and> heap_listp booted = mem_start_brk booted
   \<and> check_free_blocks booted = Some (Inl (BadRead (mem_start_brk booted - WSIZE)))
   \<and> count_list (list_head booted) 0 booted = Some (Inr 2)
   \<and> list_head booted = 0x1040 \<and> GET_NEXTP 0x1040 booted = Inr (0x1018, booted)
   \<and> GET_NEXTP 0x1018 booted = Inr (0, booted)
   \<and> count_heap_free (heap_listp booted + 2 * WSIZE) 0 booted = Some (Inl (BadRead 0x2058))"
  by (simp add: run_defs fresh_heap_def booted_def check_free_blocks_def count_list.simps
        count_heap_free.simps)

end
